theory Spec2Isabelle
  imports Complex_Main
begin

section \<open>The OCI data access notebook (\<open>book/src/oci/oci_data_access.py\<close>)\<close>

text \<open>
  The notebook is a straight-line script over the third-party package \<open>earthaccess\<close>:
  it logs in, searches for collections and granules, indexes the result lists, opens
  the granules of the last search and downloads them. The package is not part of the
  repository, so every function of it that the script calls is a parameter of the model
  (the record \<open>earthaccess\<close> below): a function of the world it runs in (the network,
  the catalog, the file system, the session the package keeps) that returns either the
  exception it raises or its value, together with the world it leaves behind.
  What the script itself does with the values (keyword arguments, the \<open>for\<close> loop,
  subscripts, \<open>strip\<close>) is modelled as written.
\<close>

subsection \<open>Exceptions and the state of a run\<close>

text \<open>
  \<open>IndexError\<close> and \<open>KeyError\<close> are raised by the script's own subscripts;
  \<open>Raised e\<close> is an exception \<open>e\<close> that leaves a call into the package.
\<close>

datatype 'e exn = IndexError | KeyError string | Raised 'e

text \<open>The world the package acts on, and what \<open>print\<close> has written so far.\<close>

record ('w, 'v) state =
  world :: 'w
  stdout :: "'v list"

type_synonym ('w, 'v, 'e, 'a) action = "('w, 'v) state \<Rightarrow> ('e exn + 'a) \<times> ('w, 'v) state"

definition return :: "'a \<Rightarrow> ('w, 'v, 'e, 'a) action" where
  "return x = (\<lambda>s. (Inr x, s))"

text \<open>One statement after another: an exception ends the run where it is raised.\<close>

definition bind :: "('w, 'v, 'e, 'a) action \<Rightarrow> ('a \<Rightarrow> ('w, 'v, 'e, 'b) action) \<Rightarrow> ('w, 'v, 'e, 'b) action" where
  "bind m f = (\<lambda>s. case m s of (Inl e, s') \<Rightarrow> (Inl e, s') | (Inr x, s') \<Rightarrow> f x s')"

text \<open>A call into the package: it sees and changes the world only.\<close>

definition call :: "('w \<Rightarrow> ('e + 'a) \<times> 'w) \<Rightarrow> ('w, 'v, 'e, 'a) action" where
  "call f = (\<lambda>s. case f (world s) of
       (Inl e, w') \<Rightarrow> (Inl (Raised e), s\<lparr>world := w'\<rparr>)
     | (Inr x, w') \<Rightarrow> (Inr x, s\<lparr>world := w'\<rparr>))"

text \<open>\<open>print(v)\<close> appends to the standard output.\<close>

definition print :: "'v \<Rightarrow> ('w, 'v, 'e, unit) action" where
  "print v = (\<lambda>s. (Inr (), s\<lparr>stdout := stdout s @ [v]\<rparr>))"

text \<open>A value that may be an exception, as a statement.\<close>

definition lift :: "'e exn + 'a \<Rightarrow> ('w, 'v, 'e, 'a) action" where
  "lift r = (\<lambda>s. (r, s))"

subsection \<open>Python's subscripts and \<open>bytes.strip\<close>\<close>

text \<open>
  \<open>xs[i]\<close> on a list: a negative index counts from the end, an index outside the
  list raises \<open>IndexError\<close>.
\<close>

definition list_getitem :: "'a list \<Rightarrow> int \<Rightarrow> 'e exn + 'a" where
  "list_getitem xs i =
     (if 0 \<le> i \<and> i < int (length xs) then Inr (xs ! nat i)
      else if i < 0 \<and> - int (length xs) \<le> i then Inr (xs ! nat (int (length xs) + i))
      else Inl IndexError)"

text \<open>\<open>d[k]\<close> on a dict: a missing key raises \<open>KeyError\<close>.\<close>

definition dict_getitem :: "(string \<rightharpoonup> 'v) \<Rightarrow> string \<Rightarrow> 'e exn + 'v" where
  "dict_getitem d k = (case d k of None \<Rightarrow> Inl (KeyError k) | Some v \<Rightarrow> Inr v)"

text \<open>
  \<open>bytes.strip()\<close> removes the ASCII whitespace (space, tab, line feed, carriage
  return, vertical tab, form feed) at both ends. A \<open>char\<close> of HOL is a byte.
\<close>

type_synonym bytes = string

definition whitespace :: "char \<Rightarrow> bool" where
  "whitespace c \<longleftrightarrow> c \<in> set [CHR 0x20, CHR 0x09, CHR 0x0A, CHR 0x0D, CHR 0x0B, CHR 0x0C]"

definition strip :: "bytes \<Rightarrow> bytes" where
  "strip b = rev (dropWhile whitespace (rev (dropWhile whitespace b)))"

subsection \<open>The package \<open>earthaccess\<close>, as the script uses it\<close>

text \<open>
  The keyword arguments of \<open>search_data\<close>; \<open>None\<close> is a keyword the call does
  not pass. The script passes dates as strings, the bounding box as four decimal
  literals and the cloud cover as two integers, and computes with none of them.
\<close>

record search_filter =
  short_name :: "string option"
  temporal :: "(string \<times> string) option"
  bounding_box :: "(real \<times> real \<times> real \<times> real) option"
  cloud_cover :: "(int \<times> int) option"
  count :: "int option"

text \<open>
  The functions and methods of the package that the script calls:
  \<open>earthaccess.login(persist=...)\<close>, \<open>earthaccess.search_datasets(instrument=...)\<close>,
  \<open>item.summary()\<close>, \<open>earthaccess.search_data(...)\<close>, \<open>earthaccess.open(granules)\<close>,
  the file object's context manager and \<open>readline\<close> (one parameter for
  \<open>with f as file: file.readline()\<close>) and
  \<open>earthaccess.download(granules, local_path=...)\<close>.
  The types \<open>'a\<close> (what \<open>login\<close> returns), \<open>'c\<close> (a collection), \<open>'v\<close> (a value of
  a summary), \<open>'g\<close> (a granule) and \<open>'h\<close> (a file object) are the package's.
\<close>

record ('w, 'e, 'a, 'c, 'v, 'g, 'h) earthaccess =
  login :: "bool \<Rightarrow> 'w \<Rightarrow> ('e + 'a) \<times> 'w"
  search_datasets :: "string \<Rightarrow> 'w \<Rightarrow> ('e + 'c list) \<times> 'w"
  summary :: "'c \<Rightarrow> 'w \<Rightarrow> ('e + (string \<rightharpoonup> 'v)) \<times> 'w"
  search_data :: "search_filter \<Rightarrow> 'w \<Rightarrow> ('e + 'g list) \<times> 'w"
  open_files :: "'g list \<Rightarrow> 'w \<Rightarrow> ('e + 'h list) \<times> 'w"
  with_readline :: "'h \<Rightarrow> 'w \<Rightarrow> ('e + bytes) \<times> 'w"
  download :: "'g list \<Rightarrow> string \<Rightarrow> 'w \<Rightarrow> ('e + string list) \<times> 'w"

subsection \<open>The script\<close>

text \<open>
  \<^verbatim>\<open>
  for item in results:
      summary = item.summary()
      print(summary["short-name"])
  \<close>
\<close>

fun print_short_names ::
  "('w, 'e, 'a, 'c, 'v, 'g, 'h) earthaccess \<Rightarrow> 'c list \<Rightarrow> ('w, 'v, 'e, unit) action" where
  "print_short_names lib [] = return ()"
| "print_short_names lib (item # items) =
     bind (call (summary lib item)) (\<lambda>summary.
     bind (lift (dict_getitem summary ''short-name'')) (\<lambda>name.
     bind (print name) (\<lambda>_.
     print_short_names lib items)))"

text \<open>The three assignments before the second granule search.\<close>

definition tspan :: "string \<times> string" where
  "tspan = (''2024-05-01'', ''2024-05-16'')"

definition bbox :: "real \<times> real \<times> real \<times> real" where
  "bbox = (-76.75, 36.97, -75.74, 39.01)"

definition clouds :: "int \<times> int" where
  "clouds = (0, 50)"

text \<open>The keyword arguments of the three calls of \<open>search_data\<close>, in the script's order.\<close>

definition first_filter :: search_filter where
  "first_filter = \<lparr>short_name = Some ''PACE_OCI_L2_BGC_NRT'', temporal = None,
     bounding_box = None, cloud_cover = None, count = Some 1\<rparr>"

definition constrained_filter :: search_filter where
  "constrained_filter = \<lparr>short_name = Some ''PACE_OCI_L2_BGC_NRT'', temporal = Some tspan,
     bounding_box = Some bbox, cloud_cover = Some clouds, count = None\<rparr>"

definition download_filter :: search_filter where
  "download_filter = \<lparr>short_name = Some ''PACE_OCI_L1B_SCI'', temporal = Some tspan,
     bounding_box = Some bbox, cloud_cover = None, count = Some 2\<rparr>"

text \<open>
  What a run that reaches the end has bound and shown: \<open>auth\<close>; the value of
  \<open>results\<close> after each of the four searches (the name is bound four times); the three
  cells \<open>results[0]\<close>, \<open>results[1]\<close>, \<open>results[2]\<close>; \<open>paths\<close> after \<open>open\<close>;
  \<open>line\<close>; and \<open>paths\<close> after \<open>download\<close>.
\<close>

record ('a, 'c, 'g, 'h) notebook =
  auth :: 'a
  results_datasets :: "'c list"
  results_first :: "'g list"
  results_constrained :: "'g list"
  shown :: "'g \<times> 'g \<times> 'g"
  results_download :: "'g list"
  paths_open :: "'h list"
  line :: bytes
  paths :: "string list"

definition oci_data_access ::
  "('w, 'e, 'a, 'c, 'v, 'g, 'h) earthaccess \<Rightarrow> ('w, 'v, 'e, ('a, 'c, 'g, 'h) notebook) action" where
  "oci_data_access lib =
     bind (call (login lib True)) (\<lambda>auth.
     bind (call (search_datasets lib ''oci'')) (\<lambda>results0.
     bind (print_short_names lib results0) (\<lambda>_.
     bind (call (search_data lib first_filter)) (\<lambda>results1.
     bind (call (search_data lib constrained_filter)) (\<lambda>results2.
     bind (lift (list_getitem results2 0)) (\<lambda>shown0.
     bind (lift (list_getitem results2 1)) (\<lambda>shown1.
     bind (lift (list_getitem results2 2)) (\<lambda>shown2.
     bind (call (search_data lib download_filter)) (\<lambda>results3.
     bind (call (open_files lib results3)) (\<lambda>paths1.
     bind (lift (list_getitem paths1 0)) (\<lambda>file.
     bind (call (with_readline lib file)) (\<lambda>read.
     bind (call (download lib results3 ''L1B'')) (\<lambda>paths2.
     return \<lparr>auth = auth, results_datasets = results0, results_first = results1,
       results_constrained = results2, shown = (shown0, shown1, shown2),
       results_download = results3, paths_open = paths1, line = strip read,
       paths = paths2\<rparr>)))))))))))))"

subsection \<open>Two packages to run the script on\<close>

text \<open>
  A stand-in for the package with a catalog of four granules \<open>10, 11, 12, 13\<close>: a search
  returns all of them, or the first \<open>count\<close>; \<open>open\<close> returns one file object per
  granule; every call but \<open>summary\<close> counts itself in the world.
\<close>

definition catalog_of_four :: "(nat, unit, unit, string, string, nat, nat) earthaccess" where
  "catalog_of_four = \<lparr>
     login = (\<lambda>persist w. (Inr (), Suc w)),
     search_datasets =
       (\<lambda>instrument w. (Inr [''PACE_OCI_L1B_SCI'', ''PACE_OCI_L2_BGC_NRT''], Suc w)),
     summary = (\<lambda>item w. (Inr [''short-name'' \<mapsto> item], w)),
     search_data = (\<lambda>f w. (Inr (case count f of None \<Rightarrow> [10, 11, 12, 13]
                                  | Some n \<Rightarrow> take (nat n) [10, 11, 12, 13]), Suc w)),
     open_files = (\<lambda>granules w. (Inr granules, Suc w)),
     with_readline =
       (\<lambda>file w. (Inr [CHR 0x89, CHR ''H'', CHR ''D'', CHR ''F'', CHR 0x0D, CHR 0x0A], Suc w)),
     download =
       (\<lambda>granules local_path w. (Inr (map (\<lambda>g. local_path @ ''/granule'') granules), Suc w))\<rparr>"

text \<open>The same with a catalog of two granules only.\<close>

definition catalog_of_two :: "(nat, unit, unit, string, string, nat, nat) earthaccess" where
  "catalog_of_two = catalog_of_four\<lparr>search_data :=
     (\<lambda>f w. (Inr (case count f of None \<Rightarrow> [10, 11] | Some n \<Rightarrow> take (nat n) [10, 11]), Suc w))\<rparr>"

text \<open>
  A package unlike the documented one: its search with a \<open>count\<close> finds nothing, and
  its \<open>open\<close> returns a file object whatever it is given.
\<close>

definition open_without_granule :: "(nat, unit, unit, string, string, nat, nat) earthaccess" where
  "open_without_granule = catalog_of_four\<lparr>
     search_data := (\<lambda>f w. (Inr (case count f of None \<Rightarrow> [10, 11, 12, 13] | Some n \<Rightarrow> []), Suc w)),
     open_files := (\<lambda>granules w. (Inr [7], Suc w))\<rparr>"

section \<open>Properties of the script\<close>

subsection \<open>Statements that succeed\<close>

lemma bind_InrE:
  assumes "bind m f s = (Inr y, s')"
  obtains x s1 where "m s = (Inr x, s1)" and "f x s1 = (Inr y, s')"
  using assms by (auto simp: bind_def split: prod.splits sum.splits)

lemma call_InrE:
  assumes "call f s = (Inr x, s')"
  obtains w' where "f (world s) = (Inr x, w')" and "s' = s\<lparr>world := w'\<rparr>"
  using assms by (auto simp: call_def split: prod.splits sum.splits)

lemma lift_InrD: "lift r s = (Inr x, s') \<Longrightarrow> r = Inr x \<and> s' = s"
  by (simp add: lift_def)

lemma return_InrD: "return x s = (Inr y, s') \<Longrightarrow> y = x \<and> s' = s"
  by (auto simp: return_def)

text \<open>A subscript with an index that is not negative succeeds exactly inside the list.\<close>

lemma list_getitem_nonneg:
  "0 \<le> i \<Longrightarrow> list_getitem xs i = Inr x \<longleftrightarrow> i < int (length xs) \<and> x = xs ! nat i"
  by (auto simp: list_getitem_def)

lemma list_getitem_IndexError:
  "0 \<le> i \<Longrightarrow> list_getitem xs i = Inl e \<longleftrightarrow> int (length xs) \<le> i \<and> e = IndexError"
  by (auto simp: list_getitem_def)

text \<open>A loop that reaches its end has printed one line for each collection.\<close>

lemma print_short_names_stdout:
  "print_short_names lib items s = (Inr (), s') \<Longrightarrow>
     length (stdout s') = length (stdout s) + length items"
proof (induction items arbitrary: s)
  case Nil
  then show ?case by (simp add: return_def)
next
  case (Cons item items)
  from Cons.prems show ?case
    by (auto elim!: bind_InrE call_InrE simp: print_def lift_def dest!: Cons.IH)
qed

subsection \<open>The runs that reach the end\<close>

text \<open>
  A run reaches the end exactly when every call into the package returns, in the order
  login, collection search, the loop over the collections, the three granule searches,
  open, readline, download, each in the world the one before it left, and the list of
  the constrained search has three elements and the list that \<open>open\<close> returned has one.
\<close>

lemma oci_data_access_InrD:
  assumes "oci_data_access lib s = (Inr nb, s')"
  shows "\<exists>w1 w2 s3 w4 w5 w6 w7 w8 w9 rd.
     login lib True (world s) = (Inr (auth nb), w1) \<and>
     search_datasets lib ''oci'' w1 = (Inr (results_datasets nb), w2) \<and>
     print_short_names lib (results_datasets nb) (s\<lparr>world := w2\<rparr>) = (Inr (), s3) \<and>
     search_data lib first_filter (world s3) = (Inr (results_first nb), w4) \<and>
     search_data lib constrained_filter w4 = (Inr (results_constrained nb), w5) \<and>
     3 \<le> length (results_constrained nb) \<and>
     shown nb =
       (results_constrained nb ! 0, results_constrained nb ! 1, results_constrained nb ! 2) \<and>
     search_data lib download_filter w5 = (Inr (results_download nb), w6) \<and>
     open_files lib (results_download nb) w6 = (Inr (paths_open nb), w7) \<and>
     1 \<le> length (paths_open nb) \<and>
     with_readline lib (paths_open nb ! 0) w7 = (Inr rd, w8) \<and>
     line nb = strip rd \<and>
     download lib (results_download nb) ''L1B'' w8 = (Inr (paths nb), w9) \<and>
     s' = s3\<lparr>world := w9\<rparr>"
  using assms unfolding oci_data_access_def
  apply (elim bind_InrE call_InrE)
  apply (drule lift_InrD)+
  apply (drule return_InrD)
  apply (clarsimp simp: list_getitem_nonneg Suc_le_eq)
  done

lemma oci_data_access_Inr_iff:
  "oci_data_access lib s = (Inr nb, s') \<longleftrightarrow>
   (\<exists>w1 w2 s3 w4 w5 w6 w7 w8 w9 rd.
     login lib True (world s) = (Inr (auth nb), w1) \<and>
     search_datasets lib ''oci'' w1 = (Inr (results_datasets nb), w2) \<and>
     print_short_names lib (results_datasets nb) (s\<lparr>world := w2\<rparr>) = (Inr (), s3) \<and>
     search_data lib first_filter (world s3) = (Inr (results_first nb), w4) \<and>
     search_data lib constrained_filter w4 = (Inr (results_constrained nb), w5) \<and>
     3 \<le> length (results_constrained nb) \<and>
     shown nb =
       (results_constrained nb ! 0, results_constrained nb ! 1, results_constrained nb ! 2) \<and>
     search_data lib download_filter w5 = (Inr (results_download nb), w6) \<and>
     open_files lib (results_download nb) w6 = (Inr (paths_open nb), w7) \<and>
     1 \<le> length (paths_open nb) \<and>
     with_readline lib (paths_open nb ! 0) w7 = (Inr rd, w8) \<and>
     line nb = strip rd \<and>
     download lib (results_download nb) ''L1B'' w8 = (Inr (paths nb), w9) \<and>
     s' = s3\<lparr>world := w9\<rparr>)"
  (is "?run \<longleftrightarrow> ?calls")
proof
  assume ?run
  then show ?calls by (rule oci_data_access_InrD)
next
  assume ?calls
  then show ?run
    by (cases nb)
      (auto simp: oci_data_access_def bind_def call_def lift_def return_def list_getitem_def)
qed

subsection \<open>The runs that end at a subscript\<close>

text \<open>
  The subscripts are not guarded: when the constrained search returns fewer than three
  granules, the run ends in \<open>IndexError\<close> in the world that search left, before the
  third search is made.
\<close>

lemma oci_data_access_few_results:
  assumes "login lib True (world s) = (Inr a, w1)"
    and "search_datasets lib ''oci'' w1 = (Inr cs, w2)"
    and "print_short_names lib cs (s\<lparr>world := w2\<rparr>) = (Inr (), s3)"
    and "search_data lib first_filter (world s3) = (Inr r1, w4)"
    and "search_data lib constrained_filter w4 = (Inr r2, w5)"
    and "length r2 < 3"
  shows "oci_data_access lib s = (Inl IndexError, s3\<lparr>world := w5\<rparr>)"
  using assms
  by (auto simp: oci_data_access_def bind_def call_def lift_def return_def list_getitem_def)

text \<open>When \<open>open\<close> returns the empty list, the run ends in \<open>IndexError\<close> at \<open>paths[0]\<close>.\<close>

lemma oci_data_access_no_paths:
  assumes "login lib True (world s) = (Inr a, w1)"
    and "search_datasets lib ''oci'' w1 = (Inr cs, w2)"
    and "print_short_names lib cs (s\<lparr>world := w2\<rparr>) = (Inr (), s3)"
    and "search_data lib first_filter (world s3) = (Inr r1, w4)"
    and "search_data lib constrained_filter w4 = (Inr r2, w5)"
    and "3 \<le> length r2"
    and "search_data lib download_filter w5 = (Inr r3, w6)"
    and "open_files lib r3 w6 = (Inr [], w7)"
  shows "oci_data_access lib s = (Inl IndexError, s3\<lparr>world := w7\<rparr>)"
  using assms
  by (auto simp: oci_data_access_def bind_def call_def lift_def return_def list_getitem_def)

subsection \<open>Two runs\<close>

lemmas run_defs = oci_data_access_def bind_def call_def lift_def return_def print_def
  list_getitem_def dict_getitem_def strip_def whitespace_def first_filter_def
  constrained_filter_def download_filter_def

lemma catalog_of_four_run:
  "oci_data_access catalog_of_four \<lparr>world = 0, stdout = []\<rparr> =
   (Inr \<lparr>auth = (), results_datasets = [''PACE_OCI_L1B_SCI'', ''PACE_OCI_L2_BGC_NRT''],
      results_first = [10], results_constrained = [10, 11, 12, 13], shown = (10, 11, 12),
      results_download = [10, 11], paths_open = [10, 11],
      line = [CHR 0x89, CHR ''H'', CHR ''D'', CHR ''F''],
      paths = [''L1B/granule'', ''L1B/granule'']\<rparr>,
    \<lparr>world = 8, stdout = [''PACE_OCI_L1B_SCI'', ''PACE_OCI_L2_BGC_NRT'']\<rparr>)"
  by (simp add: run_defs catalog_of_four_def)

lemma catalog_of_two_run:
  "oci_data_access catalog_of_two \<lparr>world = 0, stdout = []\<rparr> =
   (Inl IndexError, \<lparr>world = 4, stdout = [''PACE_OCI_L1B_SCI'', ''PACE_OCI_L2_BGC_NRT'']\<rparr>)"
  by (simp add: run_defs catalog_of_four_def catalog_of_two_def)

text \<open>
  The subscript \<open>paths[0]\<close> reads the list that \<open>open\<close> returned, not the list of the
  search: with a package whose \<open>open\<close> returns a file object for no granule, a run
  reaches the end although the search with \<open>count=2\<close> returned nothing.
\<close>

lemma open_without_granule_run:
  "oci_data_access open_without_granule \<lparr>world = 0, stdout = []\<rparr> =
   (Inr \<lparr>auth = (), results_datasets = [''PACE_OCI_L1B_SCI'', ''PACE_OCI_L2_BGC_NRT''],
      results_first = [], results_constrained = [10, 11, 12, 13], shown = (10, 11, 12),
      results_download = [], paths_open = [7],
      line = [CHR 0x89, CHR ''H'', CHR ''D'', CHR ''F''],
      paths = []\<rparr>,
    \<lparr>world = 8, stdout = [''PACE_OCI_L1B_SCI'', ''PACE_OCI_L2_BGC_NRT'']\<rparr>)"
  by (simp add: run_defs catalog_of_four_def open_without_granule_def)

subsection \<open>What a complete run needs from the searches\<close>

text \<open>
  C10. The script subscripts the list of the constrained search (the one without
  \<open>count\<close>) at 0, 1 and 2 and the list returned by \<open>earthaccess.open\<close> at 0, with no
  guard. So a run reaches the end only if the constrained search returned at least three
  granules and the search with \<open>count=2\<close> returned at least one. The second half looks
  through \<open>earthaccess.open\<close>, which belongs to the package: it is stated for a package
  whose \<open>open\<close> returns no file object when it is given no granule, the case of the empty
  list of the rule that \<open>open\<close> returns one file object per granule.
\<close>

theorem oci_data_access_completes_only_if:
  assumes run: "oci_data_access lib s = (Inr nb, s')"
    and open_empty: "\<And>w hs w'. open_files lib [] w = (Inr hs, w') \<Longrightarrow> hs = []"
  shows "(\<exists>w w'. search_data lib constrained_filter w = (Inr (results_constrained nb), w')
            \<and> 3 \<le> length (results_constrained nb))
       \<and> (\<exists>w w'. search_data lib download_filter w = (Inr (results_download nb), w')
            \<and> 1 \<le> length (results_download nb))"
proof -
  from oci_data_access_InrD [OF run] obtain w4 w5 w6 w7 where
    constrained: "search_data lib constrained_filter w4 = (Inr (results_constrained nb), w5)"
    and three: "3 \<le> length (results_constrained nb)"
    and download: "search_data lib download_filter w5 = (Inr (results_download nb), w6)"
    and opened: "open_files lib (results_download nb) w6 = (Inr (paths_open nb), w7)"
    and one: "1 \<le> length (paths_open nb)"
    by blast
  have "results_download nb \<noteq> []"
  proof
    assume "results_download nb = []"
    with opened have "paths_open nb = []" using open_empty by metis
    with one show False by simp
  qed
  then have "1 \<le> length (results_download nb)" by (simp add: Suc_le_eq)
  with constrained three download show ?thesis by blast
qed

theorem oci_data_access_completes_only_if_witness:
  "oci_data_access catalog_of_four \<lparr>world = 0, stdout = []\<rparr> =
     (Inr \<lparr>auth = (), results_datasets = [''PACE_OCI_L1B_SCI'', ''PACE_OCI_L2_BGC_NRT''],
        results_first = [10], results_constrained = [10, 11, 12, 13], shown = (10, 11, 12),
        results_download = [10, 11], paths_open = [10, 11],
        line = [CHR 0x89, CHR ''H'', CHR ''D'', CHR ''F''],
        paths = [''L1B/granule'', ''L1B/granule'']\<rparr>,
      \<lparr>world = 8, stdout = [''PACE_OCI_L1B_SCI'', ''PACE_OCI_L2_BGC_NRT'']\<rparr>)
   \<and> (\<exists>w w'. search_data catalog_of_four constrained_filter w = (Inr [10, 11, 12, 13], w')
          \<and> 3 \<le> length [10, 11, 12, 13 :: nat])
   \<and> (\<exists>w w'. search_data catalog_of_four download_filter w = (Inr [10, 11], w')
          \<and> 1 \<le> length [10, 11 :: nat])"
proof -
  have run: "oci_data_access catalog_of_four \<lparr>world = 0, stdout = []\<rparr> =
     (Inr \<lparr>auth = (), results_datasets = [''PACE_OCI_L1B_SCI'', ''PACE_OCI_L2_BGC_NRT''],
        results_first = [10], results_constrained = [10, 11, 12, 13], shown = (10, 11, 12),
        results_download = [10, 11], paths_open = [10, 11],
        line = [CHR 0x89, CHR ''H'', CHR ''D'', CHR ''F''],
        paths = [''L1B/granule'', ''L1B/granule'']\<rparr>,
      \<lparr>world = 8, stdout = [''PACE_OCI_L1B_SCI'', ''PACE_OCI_L2_BGC_NRT'']\<rparr>)"
    by (simp add: run_defs catalog_of_four_def)
  have open_empty: "\<And>w hs w'. open_files catalog_of_four [] w = (Inr hs, w') \<Longrightarrow> hs = []"
    by (auto simp: catalog_of_four_def)
  from oci_data_access_completes_only_if [OF run open_empty] run show ?thesis
    by simp
qed

end
